theory Spec2Isabelle
  imports Main
begin

section \<open>Delegate.hpp\<close>

text \<open>
  The three ways in which the code can stop abnormally. \<open>BadDelegateCall\<close> is the
  exception of \<^verbatim>\<open>Delegate::operator()\<close>. The other two are places where the
  behaviour of the program is undefined: \<open>NullHandleDereference\<close> stands for
  \<^verbatim>\<open>casted->Emit(data)\<close> in \<^verbatim>\<open>SignalBus::Emit\<close> when the
  \<^verbatim>\<open>dynamic_cast\<close> before it has returned the null pointer, and \<open>MissingReturn\<close>
  for control reaching the end of a function that is declared to return a value and has no
  return statement.
\<close>

datatype error = BadDelegateCall | NullHandleDereference | MissingReturn

text \<open>
  An object pointer is the null pointer or an address; pointers are compared by address.
  Classes, functions and event types are template arguments of the source and are
  identified by their names.
\<close>

datatype ptr = Nullptr | Addr nat

type_synonym class_id = string
type_synonym fn_id = string
type_synonym type_index = string

text \<open>
  \<^verbatim>\<open>StubFunction m_stub\<close> points to the function that one of the three closures of
  the \<^verbatim>\<open>Bind\<close> overloads converts to; there is one such function for every choice
  of the template arguments. \<open>None\<close> is the null function pointer.
\<close>

datatype stub =
    NonMemberStub fn_id
  | ConstMemberStub class_id fn_id
  | MemberStub class_id fn_id

record Delegate =
  m_instance :: ptr
  m_stub :: "stub option"

text \<open>\<^verbatim>\<open>Delegate() = default\<close>: both members take their initialisers.\<close>

definition Delegate_default :: Delegate where
  "Delegate_default = \<lparr>m_instance = Nullptr, m_stub = None\<rparr>"

text \<open>
  The bound functions are not part of the library, so running a stub is recorded as the call
  it makes: which function, on which object, with which arguments.
\<close>

datatype 'a call =
    FunctionCall fn_id 'a
  | ConstMemberCall ptr class_id fn_id 'a
  | MemberCall ptr class_id fn_id 'a

fun call_args :: "'a call \<Rightarrow> 'a" where
  "call_args (FunctionCall f a) = a"
| "call_args (ConstMemberCall p c mf a) = a"
| "call_args (MemberCall p c mf a) = a"

fun run_stub :: "stub \<Rightarrow> ptr \<Rightarrow> 'a \<Rightarrow> 'a call" where
  "run_stub (NonMemberStub f) p args = FunctionCall f args"
| "run_stub (ConstMemberStub c mf) p args = ConstMemberCall p c mf args"
| "run_stub (MemberStub c mf) p args = MemberCall p c mf args"

text \<open>\<^verbatim>\<open>R operator()(Args...args) const\<close>\<close>

definition Delegate_call :: "Delegate \<Rightarrow> 'a \<Rightarrow> error + 'a call" where
  "Delegate_call d args =
     (case m_stub d of
        None \<Rightarrow> Inl BadDelegateCall
      | Some s \<Rightarrow> Inr (run_stub s (m_instance d) args))"

text \<open>
  \<^verbatim>\<open>Matches\<close> compares \<^verbatim>\<open>m_stub\<close> with the function pointer of a closure of its
  own, written a second time in the body of \<^verbatim>\<open>Matches\<close>. Whether the function of
  that closure is the function of a closure of \<^verbatim>\<open>Bind\<close> is decided by the C++
  implementation and not by the source, so the comparison of a stored stub with the closure
  of \<^verbatim>\<open>Matches<Class, MemberFunction>\<close> is a parameter of the model. A function
  pointer obtained from a closure is never null, so a null \<^verbatim>\<open>m_stub\<close> compares
  unequal whatever the implementation does.
\<close>

type_synonym stub_compare = "stub \<Rightarrow> class_id \<Rightarrow> fn_id \<Rightarrow> bool"

text \<open>
  The comparison the library is written for: the closure of
  \<^verbatim>\<open>Matches<Class, MemberFunction>\<close> has the function of the closure of the
  non-const \<^verbatim>\<open>Bind<Class, MemberFunction>\<close>, whose body is the same, and of no other.
\<close>

definition same_instantiation :: stub_compare where
  "same_instantiation s c mf = (s = MemberStub c mf)"

text \<open>An implementation that gives every closure a function of its own.\<close>

definition distinct_closures :: stub_compare where
  "distinct_closures s c mf = False"

definition Delegate_Matches :: "stub_compare \<Rightarrow> Delegate \<Rightarrow> class_id \<Rightarrow> fn_id \<Rightarrow> ptr \<Rightarrow> bool" where
  "Delegate_Matches same_fn d c mf inst =
     (m_instance d = inst \<and>
      (case m_stub d of None \<Rightarrow> False | Some s \<Rightarrow> same_fn s c mf))"

text \<open>\<^verbatim>\<open>template <R(*Function)(Args...)> void Bind()\<close>\<close>

definition Delegate_Bind_function :: "fn_id \<Rightarrow> Delegate \<Rightarrow> Delegate" where
  "Delegate_Bind_function f d = d\<lparr>m_instance := Nullptr, m_stub := Some (NonMemberStub f)\<rparr>"

text \<open>
  \<^verbatim>\<open>Delegate Bind(const Class* classPointer)\<close>, for const member functions. The
  overload is declared to return a \<^verbatim>\<open>Delegate\<close> and has no return statement:
  after its two assignments control reaches the end of the function, and the behaviour of
  every call is undefined. No call of it returns a delegate.
\<close>

definition Delegate_Bind_const_member :: "class_id \<Rightarrow> fn_id \<Rightarrow> ptr \<Rightarrow> Delegate \<Rightarrow> error + Delegate" where
  "Delegate_Bind_const_member c mf classPointer d =
     (let assigned = d\<lparr>m_instance := classPointer, m_stub := Some (ConstMemberStub c mf)\<rparr>
      in Inl MissingReturn)"

text \<open>\<^verbatim>\<open>auto Bind(Class* c) -> void\<close>, for non-const member functions.\<close>

definition Delegate_Bind_member :: "class_id \<Rightarrow> fn_id \<Rightarrow> ptr \<Rightarrow> Delegate \<Rightarrow> Delegate" where
  "Delegate_Bind_member c mf p d = d\<lparr>m_instance := p, m_stub := Some (MemberStub c mf)\<rparr>"

text \<open>
  The three overloads under one name, with the call each of them arranges. The two
  overloads that return \<^verbatim>\<open>void\<close> return normally, with the delegate as they
  leave it.
\<close>

datatype binding =
    ToFunction fn_id
  | ToConstMember class_id fn_id ptr
  | ToMember class_id fn_id ptr

fun Delegate_Bind :: "binding \<Rightarrow> Delegate \<Rightarrow> error + Delegate" where
  "Delegate_Bind (ToFunction f) d = Inr (Delegate_Bind_function f d)"
| "Delegate_Bind (ToConstMember c mf p) d = Delegate_Bind_const_member c mf p d"
| "Delegate_Bind (ToMember c mf p) d = Inr (Delegate_Bind_member c mf p d)"

fun target_call :: "binding \<Rightarrow> 'a \<Rightarrow> 'a call" where
  "target_call (ToFunction f) args = FunctionCall f args"
| "target_call (ToConstMember c mf p) args = ConstMemberCall p c mf args"
| "target_call (ToMember c mf p) args = MemberCall p c mf args"

text \<open>
  \<^verbatim>\<open>DelegateHandle<T>\<close>: the template argument, which is the dynamic type that
  \<^verbatim>\<open>dynamic_cast\<close> inspects, and the one data member.
\<close>

record DelegateHandle =
  handle_event :: type_index
  m_delegate :: Delegate

text \<open>\<^verbatim>\<open>dynamic_cast<DelegateHandle<T>*>(handle.get())\<close>; \<open>None\<close> is the null result.\<close>

definition dynamic_cast :: "type_index \<Rightarrow> DelegateHandle \<Rightarrow> DelegateHandle option" where
  "dynamic_cast T h = (if handle_event h = T then Some h else None)"

definition DelegateHandle_Emit :: "DelegateHandle \<Rightarrow> 'v \<Rightarrow> error + 'v call" where
  "DelegateHandle_Emit h event = Delegate_call (m_delegate h) event"

definition DelegateHandle_Matches :: "stub_compare \<Rightarrow> DelegateHandle \<Rightarrow> class_id \<Rightarrow> fn_id \<Rightarrow> ptr \<Rightarrow> bool" where
  "DelegateHandle_Matches same_fn h c mf inst = Delegate_Matches same_fn (m_delegate h) c mf inst"

section \<open>SignalBus.hpp\<close>

text \<open>The class has one data member, \<^verbatim>\<open>m_map\<close>; a bus is the value of that map.\<close>

type_synonym SignalBus = "type_index \<rightharpoonup> DelegateHandle list"

text \<open>
  \<^verbatim>\<open>m_map[key]\<close>: \<^verbatim>\<open>operator[]\<close> of \<^verbatim>\<open>std::unordered_map\<close> inserts an empty
  vector under a key that is not in the map and returns the vector stored under the key.
\<close>

definition subscript :: "SignalBus \<Rightarrow> type_index \<Rightarrow> DelegateHandle list \<times> SignalBus" where
  "subscript m key =
     (case m key of
        None \<Rightarrow> ([], m(key \<mapsto> []))
      | Some hs \<Rightarrow> (hs, m))"

text \<open>
  The loop of \<^verbatim>\<open>Emit\<close>. It returns the calls made and how the loop ended: an
  exception leaves the loop, and the calls made before it have happened. The functions
  called are taken not to use the bus themselves.
\<close>

fun Emit_loop :: "type_index \<Rightarrow> 'v \<Rightarrow> DelegateHandle list \<Rightarrow> 'v call list \<times> error option" where
  "Emit_loop T data [] = ([], None)"
| "Emit_loop T data (element # rest) =
     (case dynamic_cast T element of
        None \<Rightarrow> ([], Some NullHandleDereference)
      | Some casted \<Rightarrow>
          (case DelegateHandle_Emit casted data of
             Inl e \<Rightarrow> ([], Some e)
           | Inr c \<Rightarrow> (let (cs, r) = Emit_loop T data rest in (c # cs, r))))"

definition SignalBus_Emit :: "type_index \<Rightarrow> 'v \<Rightarrow> SignalBus \<Rightarrow> ('v call list \<times> error option) \<times> SignalBus" where
  "SignalBus_Emit T data m = (let (hs, m') = subscript m T in (Emit_loop T data hs, m'))"

definition SignalBus_Bind :: "type_index \<Rightarrow> class_id \<Rightarrow> fn_id \<Rightarrow> ptr \<Rightarrow> SignalBus \<Rightarrow> SignalBus" where
  "SignalBus_Bind T c mf inst m =
     (let delegate = Delegate_Bind_member c mf inst Delegate_default;
          handle = \<lparr>handle_event = T, m_delegate = delegate\<rparr>;
          (hs, m') = subscript m T
      in m'(T \<mapsto> hs @ [handle]))"

text \<open>The predicate given to \<^verbatim>\<open>std::remove_if\<close>.\<close>

definition Unbind_pred :: "stub_compare \<Rightarrow> type_index \<Rightarrow> class_id \<Rightarrow> fn_id \<Rightarrow> ptr \<Rightarrow> DelegateHandle \<Rightarrow> bool" where
  "Unbind_pred same_fn T c mf inst handle =
     (case dynamic_cast T handle of
        None \<Rightarrow> False
      | Some typedHandle \<Rightarrow> DelegateHandle_Matches same_fn typedHandle c mf inst)"

definition SignalBus_Unbind :: "stub_compare \<Rightarrow> type_index \<Rightarrow> class_id \<Rightarrow> fn_id \<Rightarrow> ptr \<Rightarrow> SignalBus \<Rightarrow> SignalBus" where
  "SignalBus_Unbind same_fn T c mf inst m =
     (case m T of
        None \<Rightarrow> m
      | Some hs \<Rightarrow>
          (let hs' = filter (\<lambda>h. \<not> Unbind_pred same_fn T c mf inst h) hs
           in if hs' \<noteq> [] then m(T := None) else m(T \<mapsto> hs')))"

section \<open>Reading a bus\<close>

text \<open>The handles stored for an event type; none when the map has no entry for it.\<close>

definition subscriptions :: "SignalBus \<Rightarrow> type_index \<Rightarrow> DelegateHandle list" where
  "subscriptions m T = (case m T of None \<Rightarrow> [] | Some hs \<Rightarrow> hs)"

text \<open>
  A handle made by \<^verbatim>\<open>SignalBus::Bind<T, Class, MemberFunction>(inst)\<close> holds a delegate
  with these two members.
\<close>

definition bound_to :: "class_id \<Rightarrow> fn_id \<Rightarrow> ptr \<Rightarrow> DelegateHandle \<Rightarrow> bool" where
  "bound_to c mf inst h =
     (m_instance (m_delegate h) = inst \<and> m_stub (m_delegate h) = Some (MemberStub c mf))"

definition times_bound :: "SignalBus \<Rightarrow> type_index \<Rightarrow> class_id \<Rightarrow> fn_id \<Rightarrow> ptr \<Rightarrow> nat" where
  "times_bound m T c mf inst = length (filter (bound_to c mf inst) (subscriptions m T))"

text \<open>
  What \<^verbatim>\<open>Bind\<close>, the only member that adds handles, keeps true of the map: a handle
  stored for an event type is a \<^verbatim>\<open>DelegateHandle\<close> of that type, and its delegate is
  bound.
\<close>

definition handle_ok :: "type_index \<Rightarrow> DelegateHandle \<Rightarrow> bool" where
  "handle_ok T h = (handle_event h = T \<and> m_stub (m_delegate h) \<noteq> None)"

definition wf_bus :: "SignalBus \<Rightarrow> bool" where
  "wf_bus m = (\<forall>T. list_all (handle_ok T) (subscriptions m T))"

text \<open>The calls that the delegates of a list of handles make when each is invoked once.\<close>

fun handle_calls :: "'v \<Rightarrow> DelegateHandle list \<Rightarrow> 'v call list" where
  "handle_calls v [] = []"
| "handle_calls v (h # hs) =
     (case m_stub (m_delegate h) of
        None \<Rightarrow> handle_calls v hs
      | Some s \<Rightarrow> run_stub s (m_instance (m_delegate h)) v # handle_calls v hs)"

text \<open>The three components of the result of \<^verbatim>\<open>Emit\<close>.\<close>

definition Emit_calls :: "type_index \<Rightarrow> 'v \<Rightarrow> SignalBus \<Rightarrow> 'v call list" where
  "Emit_calls T v m = fst (fst (SignalBus_Emit T v m))"

definition Emit_error :: "type_index \<Rightarrow> 'v \<Rightarrow> SignalBus \<Rightarrow> error option" where
  "Emit_error T v m = snd (fst (SignalBus_Emit T v m))"

definition Emit_bus :: "type_index \<Rightarrow> 'v \<Rightarrow> SignalBus \<Rightarrow> SignalBus" where
  "Emit_bus T v m = snd (SignalBus_Emit T v m)"

section \<open>Programs that use a bus\<close>

text \<open>
  A client, like \<^verbatim>\<open>main\<close> in FluczakSignalbus.cpp, is a sequence of calls of the three
  members. Running it collects the calls the bus makes, each with the event type of the
  \<^verbatim>\<open>Emit\<close> that made it, and stops at the first exception.
\<close>

datatype 'v bus_op =
    OpBind type_index class_id fn_id ptr
  | OpUnbind type_index class_id fn_id ptr
  | OpEmit type_index 'v

fun step :: "stub_compare \<Rightarrow> 'v bus_op \<Rightarrow> SignalBus \<Rightarrow> ((type_index \<times> 'v call) list \<times> error option) \<times> SignalBus" where
  "step same_fn (OpBind T c mf p) m = (([], None), SignalBus_Bind T c mf p m)"
| "step same_fn (OpUnbind T c mf p) m = (([], None), SignalBus_Unbind same_fn T c mf p m)"
| "step same_fn (OpEmit T v) m =
     (let ((cs, r), m') = SignalBus_Emit T v m in ((map (Pair T) cs, r), m'))"

fun run :: "stub_compare \<Rightarrow> 'v bus_op list \<Rightarrow> SignalBus \<Rightarrow> ((type_index \<times> 'v call) list \<times> error option) \<times> SignalBus" where
  "run same_fn [] m = (([], None), m)"
| "run same_fn (x # xs) m =
     (let ((cs, r), m') = step same_fn x m
      in case r of
           Some e \<Rightarrow> ((cs, Some e), m')
         | None \<Rightarrow> (let ((cs', r'), m'') = run same_fn xs m' in ((cs @ cs', r'), m'')))"

definition run_calls :: "stub_compare \<Rightarrow> 'v bus_op list \<Rightarrow> SignalBus \<Rightarrow> (type_index \<times> 'v call) list" where
  "run_calls same_fn ops m = fst (fst (run same_fn ops m))"

section \<open>Delegate: invocation, binding, matching\<close>

lemma call_unbound: "Delegate_call Delegate_default args = Inl BadDelegateCall"
  by (simp add: Delegate_call_def Delegate_default_def)

text \<open>Which overloads return, and what an invocation does after one that has.\<close>

lemma Bind_const_member_undefined: "Delegate_Bind (ToConstMember c mf p) d = Inl MissingReturn"
  by (simp add: Delegate_Bind_const_member_def)

lemma Bind_returns_iff:
  "(\<exists>d1. Delegate_Bind b d = Inr d1) \<longleftrightarrow> (\<forall>c mf p. b \<noteq> ToConstMember c mf p)"
  by (cases b) (simp_all add: Delegate_Bind_const_member_def)

lemma call_Bind:
  "Delegate_Bind b d = Inr d1 \<Longrightarrow> Delegate_call d1 args = Inr (target_call b args)"
  by (cases b)
    (auto simp: Delegate_call_def Delegate_Bind_function_def Delegate_Bind_const_member_def
      Delegate_Bind_member_def)

lemma call_error_iff:
  "Delegate_call d args = Inl e \<longleftrightarrow> (e = BadDelegateCall \<and> m_stub d = None)"
  by (auto simp: Delegate_call_def split: option.splits)

text \<open>
  Claim C8. Invoking a delegate that has never been bound raises \<open>BadDelegateCall\<close>.
  Invoking a delegate on which a \<^verbatim>\<open>Bind\<close> has been performed, that is, after a
  \<^verbatim>\<open>Bind\<close> that has returned, does not raise: it makes the call to the bound
  target. \<open>BadDelegateCall\<close> on a null stub is the only error of an invocation. The
  overloads whose \<^verbatim>\<open>Bind\<close> returns are the one for free functions and the one for
  non-const member functions (lemma \<open>Bind_returns_iff\<close>).
\<close>

theorem call_raises_iff_unbound:
  "Delegate_call Delegate_default args = Inl BadDelegateCall \<and>
   (Delegate_Bind b d = Inr d1 \<longrightarrow>
      Delegate_call d1 args \<noteq> Inl BadDelegateCall \<and>
      Delegate_call d1 args = Inr (target_call b args)) \<and>
   (Delegate_call d' args = Inl e \<longleftrightarrow> (e = BadDelegateCall \<and> m_stub d' = None))"
  by (simp add: call_unbound call_Bind call_error_iff)

theorem call_raises_iff_unbound_witness:
  "Delegate_Bind (ToMember ''A'' ''Say'' (Addr 1)) Delegate_default
     = Inr \<lparr>m_instance = Addr 1, m_stub = Some (MemberStub ''A'' ''Say'')\<rparr> \<and>
   Delegate_call \<lparr>m_instance = Addr 1, m_stub = Some (MemberStub ''A'' ''Say'')\<rparr> ''Test1''
     = Inr (MemberCall (Addr 1) ''A'' ''Say'' ''Test1'') \<and>
   Delegate_Bind (ToFunction ''Print'') Delegate_default
     = Inr \<lparr>m_instance = Nullptr, m_stub = Some (NonMemberStub ''Print'')\<rparr> \<and>
   Delegate_call \<lparr>m_instance = Nullptr, m_stub = Some (NonMemberStub ''Print'')\<rparr> ''Test1''
     = Inr (FunctionCall ''Print'' ''Test1'')"
  using
    call_raises_iff_unbound [where b = "ToMember ''A'' ''Say'' (Addr 1)" and d = Delegate_default
      and ?d1.0 = "\<lparr>m_instance = Addr 1, m_stub = Some (MemberStub ''A'' ''Say'')\<rparr>"
      and args = "''Test1''"]
    call_raises_iff_unbound [where b = "ToFunction ''Print''" and d = Delegate_default
      and ?d1.0 = "\<lparr>m_instance = Nullptr, m_stub = Some (NonMemberStub ''Print'')\<rparr>"
      and args = "''Test1''"]
  by (simp add: Delegate_Bind_member_def Delegate_Bind_function_def Delegate_default_def)



text \<open>
  Claim C10. \<^verbatim>\<open>Matches\<close> on a default-constructed delegate is false for every
  pointer, the null pointer included, every class and member function, and every way the
  implementation compares stubs; so the predicate of \<^verbatim>\<open>Unbind\<close> is false on a
  handle that holds such a delegate.
\<close>

theorem unbound_never_Matches:
  "\<not> Delegate_Matches same_fn Delegate_default c mf inst \<and>
   \<not> Delegate_Matches same_fn Delegate_default c mf Nullptr \<and>
   \<not> Unbind_pred same_fn T c mf inst \<lparr>handle_event = T', m_delegate = Delegate_default\<rparr>"
  by (simp add: Delegate_Matches_def Delegate_default_def Unbind_pred_def dynamic_cast_def
      DelegateHandle_Matches_def)

text \<open>
  \<^verbatim>\<open>Matches\<close> under the two comparisons named above. With \<open>same_instantiation\<close> it
  is the test of the instance pointer and of the class and member function of the non-const
  \<^verbatim>\<open>Bind\<close>; with \<open>distinct_closures\<close> it is never true.
\<close>

lemma Matches_same_instantiation:
  "Delegate_Matches same_instantiation d c mf inst \<longleftrightarrow>
     (m_instance d = inst \<and> m_stub d = Some (MemberStub c mf))"
  by (auto simp: Delegate_Matches_def same_instantiation_def split: option.splits)

lemma Matches_after_Bind_member:
  "Delegate_Matches same_instantiation (Delegate_Bind_member c mf p d) c' mf' p' \<longleftrightarrow>
     (p' = p \<and> c' = c \<and> mf' = mf)"
  by (auto simp: Matches_same_instantiation Delegate_Bind_member_def)

lemma Matches_distinct_closures: "\<not> Delegate_Matches distinct_closures d c mf inst"
  by (simp add: Delegate_Matches_def distinct_closures_def split: option.splits)

section \<open>The handles of a bus after each member\<close>

lemma subscriptions_empty: "subscriptions Map.empty T = []"
  by (simp add: subscriptions_def)

lemma subscriptions_Bind:
  "subscriptions (SignalBus_Bind T c mf p m) T' =
     (if T' = T
      then subscriptions m T @
        [\<lparr>handle_event = T, m_delegate = \<lparr>m_instance = p, m_stub = Some (MemberStub c mf)\<rparr>\<rparr>]
      else subscriptions m T')"
  by (simp add: SignalBus_Bind_def subscript_def subscriptions_def Delegate_Bind_member_def
      Delegate_default_def split: option.splits)

text \<open>
  Whatever \<^verbatim>\<open>Unbind\<close> is asked to remove, it leaves no handle for its event type:
  the handles that do not match are erased with the entry.
\<close>

lemma subscriptions_Unbind:
  "subscriptions (SignalBus_Unbind same_fn T c mf p m) T' =
     (if T' = T then [] else subscriptions m T')"
  by (simp add: SignalBus_Unbind_def subscriptions_def Let_def split: option.splits)

lemma subscriptions_Emit: "subscriptions (Emit_bus T v m) T' = subscriptions m T'"
  by (simp add: Emit_bus_def SignalBus_Emit_def subscript_def subscriptions_def
      split: option.splits)

lemma Unbind_entry:
  "SignalBus_Unbind same_fn T c mf p m T =
     (case m T of
        None \<Rightarrow> None
      | Some hs \<Rightarrow>
          if filter (\<lambda>h. \<not> Unbind_pred same_fn T c mf p h) hs \<noteq> [] then None else Some [])"
  by (simp add: SignalBus_Unbind_def Let_def split: option.splits)

lemma Unbind_other: "T' \<noteq> T \<Longrightarrow> SignalBus_Unbind same_fn T c mf p m T' = m T'"
  by (simp add: SignalBus_Unbind_def Let_def split: option.splits)

lemma Emit_calls_loop: "Emit_calls T v m = fst (Emit_loop T v (subscriptions m T))"
  by (simp add: Emit_calls_def SignalBus_Emit_def subscript_def subscriptions_def
      split: option.splits)

lemma Emit_error_loop: "Emit_error T v m = snd (Emit_loop T v (subscriptions m T))"
  by (simp add: Emit_error_def SignalBus_Emit_def subscript_def subscriptions_def
      split: option.splits)

subsection \<open>The loop of Emit\<close>

lemma Emit_loop_ok: "list_all (handle_ok T) hs \<Longrightarrow> Emit_loop T v hs = (handle_calls v hs, None)"
  by (induction hs)
    (auto simp: handle_ok_def dynamic_cast_def DelegateHandle_Emit_def Delegate_call_def
      split: option.splits)

lemma Emit_loop_prefix: "set (fst (Emit_loop T v hs)) \<subseteq> set (handle_calls v hs)"
  by (induction hs)
    (auto simp: dynamic_cast_def DelegateHandle_Emit_def Delegate_call_def
      split: option.splits prod.splits)

lemma call_args_run_stub: "call_args (run_stub s q v) = v"
  by (cases s) simp_all

lemma handle_calls_args: "x \<in> set (handle_calls v hs) \<Longrightarrow> call_args x = v"
  by (induction hs) (auto simp: call_args_run_stub split: option.splits)

lemma run_stub_member: "run_stub s q v = MemberCall p c mf v \<longleftrightarrow> (s = MemberStub c mf \<and> q = p)"
  by (cases s) auto

lemma count_handle_calls:
  "count_list (handle_calls v hs) (MemberCall p c mf v) = length (filter (bound_to c mf p) hs)"
  by (induction hs) (auto simp: bound_to_def run_stub_member split: option.splits)

lemma handle_calls_append: "handle_calls v (hs @ hs') = handle_calls v hs @ handle_calls v hs'"
  by (induction hs) (auto split: option.splits)

lemma handle_calls_member:
  "MemberCall p c mf v' \<in> set (handle_calls v hs) \<Longrightarrow> \<exists>h \<in> set hs. bound_to c mf p h"
proof (induction hs)
  case Nil
  then show ?case by simp
next
  case (Cons h hs)
  show ?case
  proof (cases "m_stub (m_delegate h)")
    case None
    with Cons show ?thesis by auto
  next
    case (Some s)
    with Cons show ?thesis
      by (cases s) (auto simp: bound_to_def)
  qed
qed

subsection \<open>Well-formed buses\<close>

lemma wf_bus_empty: "wf_bus Map.empty"
  by (simp add: wf_bus_def subscriptions_def)

lemma wf_bus_Bind: "wf_bus m \<Longrightarrow> wf_bus (SignalBus_Bind T c mf p m)"
  by (simp add: wf_bus_def subscriptions_Bind handle_ok_def)

lemma wf_bus_Unbind: "wf_bus m \<Longrightarrow> wf_bus (SignalBus_Unbind same_fn T c mf p m)"
  by (simp add: wf_bus_def subscriptions_Unbind)

lemma wf_bus_Emit: "wf_bus m \<Longrightarrow> wf_bus (Emit_bus T v m)"
  by (simp add: wf_bus_def subscriptions_Emit)

lemma Emit_calls_wf: "wf_bus m \<Longrightarrow> Emit_calls T v m = handle_calls v (subscriptions m T)"
  by (simp add: Emit_calls_loop wf_bus_def Emit_loop_ok)

lemma Emit_error_wf: "wf_bus m \<Longrightarrow> Emit_error T v m = None"
  by (simp add: Emit_error_loop wf_bus_def Emit_loop_ok)

lemma Emit_calls_Bind:
  "wf_bus m \<Longrightarrow>
   Emit_calls T v (SignalBus_Bind T c mf p m) = Emit_calls T v m @ [MemberCall p c mf v]"
  by (simp add: Emit_calls_wf wf_bus_Bind subscriptions_Bind handle_calls_append)

subsection \<open>Counting the handles of a binding\<close>

lemma times_bound_empty: "times_bound Map.empty T c mf p = 0"
  by (simp add: times_bound_def subscriptions_empty)

lemma times_bound_Bind:
  "times_bound (SignalBus_Bind T c mf p m) T c mf p = Suc (times_bound m T c mf p)"
  by (simp add: times_bound_def subscriptions_Bind bound_to_def)

lemma times_bound_Bind_other:
  "(T', c', mf', p') \<noteq> (T, c, mf, p) \<Longrightarrow>
   times_bound (SignalBus_Bind T' c' mf' p' m) T c mf p = times_bound m T c mf p"
  by (auto simp: times_bound_def subscriptions_Bind bound_to_def)

lemma times_bound_Emit: "times_bound (Emit_bus T' v m) T c mf p = times_bound m T c mf p"
  by (simp add: times_bound_def subscriptions_Emit)

lemma times_bound_Unbind_same:
  "times_bound (SignalBus_Unbind same_fn T c mf p m) T c' mf' p' = 0"
  by (simp add: times_bound_def subscriptions_Unbind)

lemma times_bound_Unbind_le:
  "times_bound (SignalBus_Unbind same_fn T' c' mf' p' m) T c mf p \<le> times_bound m T c mf p"
  by (simp add: times_bound_def subscriptions_Unbind)

lemma times_bound_0_iff:
  "times_bound m T c mf p = 0 \<longleftrightarrow> (\<forall>h \<in> set (subscriptions m T). \<not> bound_to c mf p h)"
  by (simp add: times_bound_def filter_empty_conv)

lemma Emit_calls_unbound:
  assumes "times_bound m T c mf p = 0"
  shows "MemberCall p c mf v' \<notin> set (Emit_calls T v m)"
proof
  assume "MemberCall p c mf v' \<in> set (Emit_calls T v m)"
  then have "MemberCall p c mf v' \<in> set (handle_calls v (subscriptions m T))"
    using Emit_loop_prefix [of T v "subscriptions m T"] by (auto simp: Emit_calls_loop)
  from handle_calls_member [OF this]
  obtain h where "h \<in> set (subscriptions m T)" "bound_to c mf p h" ..
  with assms show False by (simp add: times_bound_0_iff)
qed

section \<open>Emit\<close>

text \<open>
  Claim C3. On a well-formed bus that holds \<open>k\<close> handles bound to an instance and member
  function for an event type, \<^verbatim>\<open>Emit\<close> of a value of that type raises nothing and
  calls that member function on that instance exactly \<open>k\<close> times; every call it makes
  receives the emitted value. \<^verbatim>\<open>Emit\<close> leaves the bus well-formed with the same
  \<open>k\<close>, so the same holds of every later \<^verbatim>\<open>Emit\<close>, and one more
  \<^verbatim>\<open>Bind\<close> of the triple makes the number \<open>k + 1\<close>: one after a single
  \<^verbatim>\<open>Bind\<close>, two after binding the same pair twice.
\<close>

theorem Emit_invokes_once_per_Bind:
  assumes "wf_bus m" and "times_bound m T c mf p = k"
  shows "Emit_error T v m = None \<and>
         count_list (Emit_calls T v m) (MemberCall p c mf v) = k \<and>
         (\<forall>x \<in> set (Emit_calls T v m). call_args x = v) \<and>
         wf_bus (Emit_bus T v m) \<and>
         times_bound (Emit_bus T v m) T c mf p = k \<and>
         times_bound (SignalBus_Bind T c mf p m) T c mf p = Suc k"
proof -
  have "count_list (Emit_calls T v m) (MemberCall p c mf v) = k"
    using assms by (simp add: Emit_calls_wf count_handle_calls times_bound_def)
  moreover have "\<forall>x \<in> set (Emit_calls T v m). call_args x = v"
    using assms(1) by (simp add: Emit_calls_wf handle_calls_args)
  ultimately show ?thesis
    using assms by (simp add: Emit_error_wf wf_bus_Emit times_bound_Emit times_bound_Bind)
qed

theorem Emit_invokes_once_per_Bind_witness:
  "wf_bus (SignalBus_Bind ''StringEvent'' ''A'' ''Say'' (Addr 1)
            (SignalBus_Bind ''StringEvent'' ''A'' ''Say'' (Addr 1) Map.empty)) \<and>
   times_bound (SignalBus_Bind ''StringEvent'' ''A'' ''Say'' (Addr 1)
            (SignalBus_Bind ''StringEvent'' ''A'' ''Say'' (Addr 1) Map.empty))
        ''StringEvent'' ''A'' ''Say'' (Addr 1) = 2 \<and>
   Emit_error ''StringEvent'' ''Test1'' (SignalBus_Bind ''StringEvent'' ''A'' ''Say'' (Addr 1)
            (SignalBus_Bind ''StringEvent'' ''A'' ''Say'' (Addr 1) Map.empty)) = None \<and>
   count_list (Emit_calls ''StringEvent'' ''Test1'' (SignalBus_Bind ''StringEvent'' ''A'' ''Say'' (Addr 1)
            (SignalBus_Bind ''StringEvent'' ''A'' ''Say'' (Addr 1) Map.empty)))
        (MemberCall (Addr 1) ''A'' ''Say'' ''Test1'') = 2"
proof -
  let ?m = "SignalBus_Bind ''StringEvent'' ''A'' ''Say'' (Addr 1)
            (SignalBus_Bind ''StringEvent'' ''A'' ''Say'' (Addr 1) Map.empty)"
  have wf: "wf_bus ?m"
    by (simp add: wf_bus_Bind wf_bus_empty)
  have tb: "times_bound ?m ''StringEvent'' ''A'' ''Say'' (Addr 1) = 2"
    by (simp add: times_bound_Bind times_bound_empty)
  show ?thesis
    using wf tb Emit_invokes_once_per_Bind [OF wf tb, of "''Test1''"] by simp
qed

text \<open>
  Claim C6. When A, B and C are bound in that order for an event type on a well-formed bus,
  \<^verbatim>\<open>Emit\<close> of that type makes the calls of the handles that were there before and
  then calls A, B and C, in that order, and raises nothing.
\<close>

theorem Emit_in_registration_order:
  assumes "wf_bus m"
  shows "Emit_calls T v
           (SignalBus_Bind T cC fC pC (SignalBus_Bind T cB fB pB (SignalBus_Bind T cA fA pA m)))
           = Emit_calls T v m @
               [MemberCall pA cA fA v, MemberCall pB cB fB v, MemberCall pC cC fC v]
         \<and> Emit_error T v
             (SignalBus_Bind T cC fC pC (SignalBus_Bind T cB fB pB (SignalBus_Bind T cA fA pA m)))
           = None"
  using assms by (simp add: Emit_calls_Bind wf_bus_Bind Emit_error_wf)

theorem Emit_in_registration_order_witness:
  "wf_bus Map.empty \<and>
   Emit_calls ''StringEvent'' ''Test1''
     (SignalBus_Bind ''StringEvent'' ''C'' ''Hear'' (Addr 3)
       (SignalBus_Bind ''StringEvent'' ''B'' ''Log'' (Addr 2)
         (SignalBus_Bind ''StringEvent'' ''A'' ''Say'' (Addr 1) Map.empty)))
   = [MemberCall (Addr 1) ''A'' ''Say'' ''Test1'', MemberCall (Addr 2) ''B'' ''Log'' ''Test1'',
      MemberCall (Addr 3) ''C'' ''Hear'' ''Test1'']"
proof -
  have e: "Emit_calls ''StringEvent'' ''Test1'' Map.empty = []"
    by (simp add: Emit_calls_loop subscriptions_empty)
  show ?thesis
    using Emit_in_registration_order [OF wf_bus_empty, of "''StringEvent''" "''Test1''"
        "''C''" "''Hear''" "Addr 3" "''B''" "''Log''" "Addr 2" "''A''" "''Say''" "Addr 1"] e
    by (simp add: wf_bus_empty)
qed

text \<open>
  Claim C4, as the code has it. For an event type with no handles, \<^verbatim>\<open>Emit\<close>
  raises nothing and makes no call, and the handles of every event type are what they were.
  The map is unchanged when it has an entry, with an empty vector, for the type; when it has
  no entry, \<^verbatim>\<open>m_map[typeid(EventToEmit)]\<close> inserts one with an empty vector.
\<close>

theorem Emit_without_handlers:
  assumes "subscriptions m T = []"
  shows "SignalBus_Emit T v m = (([], None), if m T = None then m(T \<mapsto> []) else m) \<and>
         (\<forall>T'. subscriptions (Emit_bus T v m) T' = subscriptions m T')"
proof -
  have "SignalBus_Emit T v m = (([], None), if m T = None then m(T \<mapsto> []) else m)"
    using assms
    by (auto simp: SignalBus_Emit_def subscript_def subscriptions_def split: option.splits)
  then show ?thesis
    by (simp add: subscriptions_Emit)
qed

theorem Emit_without_handlers_witness:
  "subscriptions Map.empty ''StringEvent'' = [] \<and>
   SignalBus_Emit ''StringEvent'' ''Test1'' Map.empty = (([], None), [''StringEvent'' \<mapsto> []])"
  using Emit_without_handlers [of Map.empty "''StringEvent''" "''Test1''"]
  by (simp add: subscriptions_empty)

text \<open>
  Claim C4 as it is written fails on a bus that has never been bound to: the map after
  \<^verbatim>\<open>Emit\<close> is not the map before it.
\<close>

theorem Emit_inserts_entry:
  "subscriptions Map.empty ''StringEvent'' = [] \<and>
   Emit_bus ''StringEvent'' ''Test1'' Map.empty \<noteq> Map.empty"
  by (simp add: subscriptions_def Emit_bus_def SignalBus_Emit_def subscript_def)

section \<open>Unbind\<close>

lemma step_keeps_unbound:
  assumes "x \<noteq> OpBind T c mf p" and "times_bound m T c mf p = 0"
  shows "times_bound (snd (step same_fn x m)) T c mf p = 0 \<and>
         (T, MemberCall p c mf v) \<notin> set (fst (fst (step same_fn x m)))"
proof (cases x)
  case (OpBind T' c' mf' p')
  with assms show ?thesis by (simp add: times_bound_Bind_other)
next
  case (OpUnbind T' c' mf' p')
  with assms(2) times_bound_Unbind_le [of same_fn T' c' mf' p' m T c mf p] show ?thesis by simp
next
  case (OpEmit T' v')
  have "snd (step same_fn x m) = Emit_bus T' v' m"
    using OpEmit by (simp add: Emit_bus_def split: prod.splits)
  moreover have "fst (fst (step same_fn x m)) = map (Pair T') (Emit_calls T' v' m)"
    using OpEmit by (simp add: Emit_calls_def split: prod.splits)
  ultimately show ?thesis
    using assms(2) Emit_calls_unbound [OF assms(2), of v v'] by (auto simp: times_bound_Emit)
qed

lemma run_keeps_unbound:
  assumes "OpBind T c mf p \<notin> set ops" and "times_bound m T c mf p = 0"
  shows "(T, MemberCall p c mf v) \<notin> set (run_calls same_fn ops m)"
  using assms
proof (induction ops arbitrary: m)
  case Nil
  then show ?case by (simp add: run_calls_def)
next
  case (Cons x xs)
  obtain cs r m' where st: "step same_fn x m = ((cs, r), m')"
    by (metis prod.exhaust)
  have x: "x \<noteq> OpBind T c mf p" and xs: "OpBind T c mf p \<notin> set xs"
    using Cons.prems(1) by auto
  have keep: "times_bound m' T c mf p = 0" "(T, MemberCall p c mf v) \<notin> set cs"
    using step_keeps_unbound [OF x Cons.prems(2), of same_fn v] st by simp_all
  show ?case
  proof (cases r)
    case (Some e)
    with st keep show ?thesis by (simp add: run_calls_def)
  next
    case None
    have "(T, MemberCall p c mf v) \<notin> set (run_calls same_fn xs m')"
      using Cons.IH [OF xs keep(1)] .
    with None st keep show ?thesis
      by (auto simp: run_calls_def split: prod.splits)
  qed
qed

text \<open>A client that starts from a well-formed bus keeps it well-formed and meets no error.\<close>

lemma step_wf:
  assumes "wf_bus m"
  shows "wf_bus (snd (step same_fn x m)) \<and> snd (fst (step same_fn x m)) = None"
proof (cases x)
  case (OpBind T c mf p)
  with assms show ?thesis by (simp add: wf_bus_Bind)
next
  case (OpUnbind T c mf p)
  with assms show ?thesis by (simp add: wf_bus_Unbind)
next
  case (OpEmit T v)
  have "snd (step same_fn x m) = Emit_bus T v m"
    using OpEmit by (simp add: Emit_bus_def split: prod.splits)
  moreover have "snd (fst (step same_fn x m)) = Emit_error T v m"
    using OpEmit by (simp add: Emit_error_def split: prod.splits)
  ultimately show ?thesis
    using assms by (simp add: wf_bus_Emit Emit_error_wf)
qed

lemma run_wf:
  "wf_bus m \<Longrightarrow> wf_bus (snd (run same_fn ops m)) \<and> snd (fst (run same_fn ops m)) = None"
proof (induction ops arbitrary: m)
  case Nil
  then show ?case by simp
next
  case (Cons x xs)
  obtain cs r m' where st: "step same_fn x m = ((cs, r), m')"
    by (metis prod.exhaust)
  have "wf_bus m'" and "r = None"
    using step_wf [OF Cons.prems, of same_fn x] st by simp_all
  with Cons.IH [of m'] st show ?case
    by (auto split: prod.splits)
qed

text \<open>
  Claim C5. After \<^verbatim>\<open>Unbind\<close> of an instance and member function for an event type,
  however often they were bound, the bus holds no handle for them under that type and none
  on which the predicate of \<^verbatim>\<open>Unbind\<close> is true; the next \<^verbatim>\<open>Emit\<close> of
  the type does not call the member function on the instance, and neither does any
  \<^verbatim>\<open>Emit\<close> of the type in a client that goes on without binding the triple again.
\<close>

theorem Unbind_prunes_every_binding:
  assumes "OpBind T c mf p \<notin> set ops"
  shows "times_bound (SignalBus_Unbind same_fn T c mf p m) T c mf p = 0 \<and>
         filter (Unbind_pred same_fn T c mf p)
           (subscriptions (SignalBus_Unbind same_fn T c mf p m) T) = [] \<and>
         MemberCall p c mf v \<notin> set (Emit_calls T v (SignalBus_Unbind same_fn T c mf p m)) \<and>
         (T, MemberCall p c mf v) \<notin>
           set (run_calls same_fn ops (SignalBus_Unbind same_fn T c mf p m))"
  using run_keeps_unbound [OF assms times_bound_Unbind_same]
    Emit_calls_unbound [OF times_bound_Unbind_same]
  by (simp add: times_bound_Unbind_same subscriptions_Unbind)

theorem Unbind_prunes_every_binding_witness:
  "OpBind ''StringEvent'' ''A'' ''Say'' (Addr 1) \<notin>
      set [OpEmit ''StringEvent'' ''Test1'', OpBind ''StringEvent'' ''A'' ''Say'' (Addr 2),
           OpEmit ''StringEvent'' ''Test2''] \<and>
   (''StringEvent'', MemberCall (Addr 1) ''A'' ''Say'' ''Test2'') \<notin>
      set (run_calls same_instantiation
            [OpEmit ''StringEvent'' ''Test1'', OpBind ''StringEvent'' ''A'' ''Say'' (Addr 2),
             OpEmit ''StringEvent'' ''Test2'']
            (SignalBus_Unbind same_instantiation ''StringEvent'' ''A'' ''Say'' (Addr 1)
              (SignalBus_Bind ''StringEvent'' ''A'' ''Say'' (Addr 1)
                (SignalBus_Bind ''StringEvent'' ''A'' ''Say'' (Addr 1) Map.empty))))"
  using Unbind_prunes_every_binding [of "''StringEvent''" "''A''" "''Say''" "Addr 1"
      "[OpEmit ''StringEvent'' ''Test1'', OpBind ''StringEvent'' ''A'' ''Say'' (Addr 2),
        OpEmit ''StringEvent'' ''Test2'']"
      same_instantiation
      "SignalBus_Bind ''StringEvent'' ''A'' ''Say'' (Addr 1)
         (SignalBus_Bind ''StringEvent'' ''A'' ''Say'' (Addr 1) Map.empty)"
      "''Test2''"]
  by simp

text \<open>
  Claim C1 does not hold of the code. \<^verbatim>\<open>Unbind\<close> ends with
  \<^verbatim>\<open>if (!it->second.empty()) m_map.erase(it);\<close>, so the entry is erased when handles
  remain and kept when none does (lemma \<open>Unbind_entry\<close>). After binding two instances and
  unbinding the first, the vector holds the handle of the second and the entry is gone; an
  entry with an empty vector, here the one \<^verbatim>\<open>Emit\<close> inserts, stays in the map.
  Both hold whatever the comparison of stubs.
\<close>

theorem Unbind_erases_nonempty_keeps_empty:
  "SignalBus_Unbind same_fn ''StringEvent'' ''A'' ''Say'' (Addr 1)
     (SignalBus_Bind ''StringEvent'' ''A'' ''Say'' (Addr 2)
       (SignalBus_Bind ''StringEvent'' ''A'' ''Say'' (Addr 1) Map.empty)) ''StringEvent'' = None
   \<and> SignalBus_Unbind same_fn ''StringEvent'' ''A'' ''Say'' (Addr 1)
       (Emit_bus ''StringEvent'' ''Test1'' Map.empty) ''StringEvent'' = Some []"
  by (simp add: Unbind_entry SignalBus_Bind_def subscript_def Unbind_pred_def dynamic_cast_def
      DelegateHandle_Matches_def Delegate_Matches_def Delegate_Bind_member_def Delegate_default_def
      Emit_bus_def SignalBus_Emit_def)

text \<open>
  Claim C2 does not hold of the code. With \<^verbatim>\<open>a.Say\<close> bound and \<^verbatim>\<open>b.Say\<close>
  never bound, \<^verbatim>\<open>Unbind\<close> of \<^verbatim>\<open>b.Say\<close> removes no handle, finds the vector
  non-empty and erases the entry: \<^verbatim>\<open>Emit\<close>, which called \<^verbatim>\<open>a.Say\<close> before,
  calls nothing after.
\<close>

theorem Unbind_of_unbound_pair_drops_others:
  "Emit_calls ''StringEvent'' v (SignalBus_Bind ''StringEvent'' ''A'' ''Say'' (Addr 1) Map.empty)
     = [MemberCall (Addr 1) ''A'' ''Say'' v]
   \<and> times_bound (SignalBus_Bind ''StringEvent'' ''A'' ''Say'' (Addr 1) Map.empty)
       ''StringEvent'' ''A'' ''Say'' (Addr 2) = 0
   \<and> Emit_calls ''StringEvent'' v
       (SignalBus_Unbind same_fn ''StringEvent'' ''A'' ''Say'' (Addr 2)
         (SignalBus_Bind ''StringEvent'' ''A'' ''Say'' (Addr 1) Map.empty)) = []"
  by (simp add: Emit_calls_loop subscriptions_Unbind subscriptions_Bind times_bound_def bound_to_def
      subscriptions_empty dynamic_cast_def DelegateHandle_Emit_def Delegate_call_def)

text \<open>
  Claim C7 does not hold of the code in its last part. With \<^verbatim>\<open>Say\<close> bound on two
  instances of one class, \<^verbatim>\<open>Emit\<close> calls both; after \<^verbatim>\<open>Unbind\<close> of the first
  instance the handle of the second is what remains in the vector, the entry is erased for
  that, and \<^verbatim>\<open>Emit\<close> calls neither. The first part of the claim is lemma
  \<open>Matches_same_instantiation\<close>.
\<close>

theorem Unbind_one_instance_drops_other:
  "Emit_calls ''StringEvent'' v
     (SignalBus_Bind ''StringEvent'' ''A'' ''Say'' (Addr 2)
       (SignalBus_Bind ''StringEvent'' ''A'' ''Say'' (Addr 1) Map.empty))
     = [MemberCall (Addr 1) ''A'' ''Say'' v, MemberCall (Addr 2) ''A'' ''Say'' v]
   \<and> Emit_calls ''StringEvent'' v
       (SignalBus_Unbind same_fn ''StringEvent'' ''A'' ''Say'' (Addr 1)
         (SignalBus_Bind ''StringEvent'' ''A'' ''Say'' (Addr 2)
           (SignalBus_Bind ''StringEvent'' ''A'' ''Say'' (Addr 1) Map.empty))) = []"
  by (simp add: Emit_calls_loop subscriptions_Unbind subscriptions_Bind
      subscriptions_empty dynamic_cast_def DelegateHandle_Emit_def Delegate_call_def)

end
